theory Spec2Isabelle
  imports Complex_Main "HOL-Library.Word" "HOL-Library.Signed_Division"
begin

section \<open>Go primitives used by the audio package\<close>

text \<open>
  The package computes on \<^verbatim>\<open>float64\<close> and \<^verbatim>\<open>float32\<close>. Both are modelled as
  \<^typ>\<open>real\<close>: the conversions between them are the identity, and rounding, overflow to
  an infinity and NaN are outside the model. Go's \<^verbatim>\<open>int\<close> (64 bit) is \<^typ>\<open>int\<close>; the
  indices the code computes stay far below the word size. The unsigned 64-bit state of
  the noise generator and the \<^verbatim>\<open>int32\<close> running flag are words.
\<close>

unbundle bit_operations_syntax

type_synonym float64 = real
type_synonym float32 = real

datatype panic = IndexOutOfRange | DivideByZero

text \<open>Sequencing of steps that may panic: the first panic ends the computation.\<close>

definition pbind :: "panic + 'a \<Rightarrow> ('a \<Rightarrow> panic + 'b) \<Rightarrow> panic + 'b" where
  "pbind m f = (case m of Inl p \<Rightarrow> Inl p | Inr x \<Rightarrow> f x)"

text \<open>\<^verbatim>\<open>a % b\<close> on \<^verbatim>\<open>int\<close>: the remainder of the division that truncates towards
  zero; a zero divisor panics.\<close>

definition go_rem :: "int \<Rightarrow> int \<Rightarrow> panic + int" where
  "go_rem a b = (if b = 0 then Inl DivideByZero else Inr (a smod b))"

text \<open>\<^verbatim>\<open>xs[i]\<close> read and \<^verbatim>\<open>xs[i] = v\<close> write on a slice: out of range panics.\<close>

definition go_index :: "'a list \<Rightarrow> int \<Rightarrow> panic + 'a" where
  "go_index xs i =
     (if 0 \<le> i \<and> i < int (length xs) then Inr (xs ! nat i) else Inl IndexOutOfRange)"

definition go_store :: "'a list \<Rightarrow> int \<Rightarrow> 'a \<Rightarrow> panic + 'a list" where
  "go_store xs i v =
     (if 0 \<le> i \<and> i < int (length xs) then Inr (xs[nat i := v]) else Inl IndexOutOfRange)"

text \<open>\<^verbatim>\<open>int(x)\<close> of a float: the fraction is discarded (truncation towards zero).\<close>

definition go_int :: "float64 \<Rightarrow> int" where
  "go_int x = (if 0 \<le> x then \<lfloor>x\<rfloor> else \<lceil>x\<rceil>)"

text \<open>Reading a \<^verbatim>\<open>map[string]float64\<close>: a missing key reads as the zero value.\<close>

definition map_read :: "(string \<rightharpoonup> float64) \<Rightarrow> string \<Rightarrow> float64" where
  "map_read m k = (case m k of None \<Rightarrow> 0 | Some v \<Rightarrow> v)"

text \<open>\<^verbatim>\<open>for i := range buffer { ... }\<close> where the body reads and writes only
  \<^verbatim>\<open>buffer[i]\<close> and the receiver's fields: the body maps the sample and the state to
  the new sample and the new state. \<open>rangeLoop\<close> is the loop whose body cannot panic,
  \<open>rangeLoopP\<close> the loop whose body can.\<close>

fun rangeLoop :: "('a \<Rightarrow> 's \<Rightarrow> 'a \<times> 's) \<Rightarrow> 'a list \<Rightarrow> 's \<Rightarrow> 'a list \<times> 's" where
  "rangeLoop body [] s = ([], s)"
| "rangeLoop body (x # xs) s =
     (case body x s of (y, s') \<Rightarrow>
        (case rangeLoop body xs s' of (ys, s'') \<Rightarrow> (y # ys, s'')))"

fun rangeLoopP ::
  "('a \<Rightarrow> 's \<Rightarrow> panic + ('a \<times> 's)) \<Rightarrow> 'a list \<Rightarrow> 's \<Rightarrow> panic + ('a list \<times> 's)" where
  "rangeLoopP body [] s = Inr ([], s)"
| "rangeLoopP body (x # xs) s =
     (case body x s of
        Inl p \<Rightarrow> Inl p
      | Inr (y, s') \<Rightarrow>
          (case rangeLoopP body xs s' of
             Inl p \<Rightarrow> Inl p
           | Inr (ys, s'') \<Rightarrow> Inr (y # ys, s'')))"

definition SampleRate :: int where "SampleRate = 44100"
definition FrameSize :: int where "FrameSize = 512"
definition Channels :: int where "Channels = 2"

section \<open>The parameter store\<close>

record ParameterSmoother =
  current :: float64
  target :: float64
  rate :: float64
  active :: bool

text \<open>The two mutexes are left out: the model is of one thread's calls in sequence. An
  \<^verbatim>\<open>*atomic.Value\<close> slot is the value it holds, a \<^verbatim>\<open>*ParameterSmoother\<close> the record it
  points to (each is reachable through its map entry only).\<close>

record ParameterManager =
  params :: "string \<rightharpoonup> float64"
  atomicParams :: "string \<rightharpoonup> float64"
  smoothing :: "string \<rightharpoonup> ParameterSmoother"

definition NewParameterManager :: ParameterManager where
  "NewParameterManager =
     \<lparr>params = Map.empty, atomicParams = Map.empty, smoothing = Map.empty\<rparr>"

definition Set :: "string \<Rightarrow> float64 \<Rightarrow> ParameterManager \<Rightarrow> ParameterManager" where
  "Set key v pm =
     (let pm1 = pm\<lparr>params := (params pm)(key \<mapsto> v)\<rparr>;
          pm2 = (case atomicParams pm1 key of
                   Some _ \<Rightarrow> pm1\<lparr>atomicParams := (atomicParams pm1)(key \<mapsto> v)\<rparr>
                 | None \<Rightarrow> pm1)
      in (case smoothing pm2 key of
            Some smoother \<Rightarrow>
              pm2\<lparr>smoothing := (smoothing pm2)(key \<mapsto> smoother\<lparr>target := v, active := True\<rparr>)\<rparr>
          | None \<Rightarrow> pm2))"

definition Get :: "ParameterManager \<Rightarrow> string \<Rightarrow> float64 \<times> bool" where
  "Get pm key = (case params pm key of Some v \<Rightarrow> (v, True) | None \<Rightarrow> (0, False))"

definition GetWithDefault :: "ParameterManager \<Rightarrow> string \<Rightarrow> float64 \<Rightarrow> float64" where
  "GetWithDefault pm key defaultValue =
     (case Get pm key of (v, exists) \<Rightarrow> if exists then v else defaultValue)"

definition absFloat64 :: "float64 \<Rightarrow> float64" where
  "absFloat64 x = (if x < 0 then - x else x)"

text \<open>\<open>GetSmoothed\<close> mutates the smoother it finds, so it returns the store as well.\<close>

definition GetSmoothed ::
  "string \<Rightarrow> float64 \<Rightarrow> ParameterManager \<Rightarrow> float64 \<times> ParameterManager" where
  "GetSmoothed key defaultValue pm =
     (case smoothing pm key of
        Some smoother \<Rightarrow>
          if active smoother then
            (let s1 = smoother\<lparr>current :=
                        current smoother + (target smoother - current smoother) * rate smoother\<rparr>;
                 s2 = (if absFloat64 (target s1 - current s1) < 0.0001
                       then s1\<lparr>current := target s1, active := False\<rparr> else s1)
             in (current s2, pm\<lparr>smoothing := (smoothing pm)(key \<mapsto> s2)\<rparr>))
          else (GetWithDefault pm key defaultValue, pm)
      | None \<Rightarrow> (GetWithDefault pm key defaultValue, pm))"


definition RegisterAtomic :: "string \<Rightarrow> float64 \<Rightarrow> ParameterManager \<Rightarrow> ParameterManager" where
  "RegisterAtomic key initialValue pm =
     pm\<lparr>atomicParams := (atomicParams pm)(key \<mapsto> initialValue),
        params := (params pm)(key \<mapsto> initialValue)\<rparr>"

definition GetAtomic :: "ParameterManager \<Rightarrow> string \<Rightarrow> float64 \<times> bool" where
  "GetAtomic pm key = (case atomicParams pm key of Some v \<Rightarrow> (v, True) | None \<Rightarrow> (0, False))"

definition EnableSmoothing :: "string \<Rightarrow> float64 \<Rightarrow> ParameterManager \<Rightarrow> ParameterManager" where
  "EnableSmoothing key r pm =
     (let currentValue = GetWithDefault pm key 0.0
      in pm\<lparr>smoothing := (smoothing pm)(key \<mapsto>
            \<lparr>current = currentValue, target = currentValue, rate = r, active = False\<rparr>)\<rparr>)"

text \<open>\<open>BatchSet\<close> ranges over a Go map: the keys are distinct and the order of the
  visits is not fixed. The argument is the list of the entries in the order of one run,
  and the loop body is \<open>BatchSet_entry\<close>.\<close>

definition BatchSet_entry :: "string \<times> float64 \<Rightarrow> ParameterManager \<Rightarrow> ParameterManager" where
  "BatchSet_entry kv pm =
     (case kv of (key, v) \<Rightarrow>
        (let pm1 = pm\<lparr>params := (params pm)(key \<mapsto> v)\<rparr>
         in (case atomicParams pm1 key of
               Some _ \<Rightarrow> pm1\<lparr>atomicParams := (atomicParams pm1)(key \<mapsto> v)\<rparr>
             | None \<Rightarrow> pm1)))"

fun BatchSet :: "(string \<times> float64) list \<Rightarrow> ParameterManager \<Rightarrow> ParameterManager" where
  "BatchSet [] pm = pm"
| "BatchSet (kv # updates) pm = BatchSet updates (BatchSet_entry kv pm)"

definition GetAll :: "ParameterManager \<Rightarrow> (string \<rightharpoonup> float64)" where
  "GetAll pm = params pm"

section \<open>Effects\<close>

datatype EffectType =
  EffectDelay | EffectReverb | EffectDistortion | EffectChorus | EffectBitCrusher

record Effect =
  Type :: EffectType
  Mix :: float64
  Parameters :: "string \<rightharpoonup> float64"
  delayLine :: "float32 list"
  delayIndex :: int
  lfoPhase :: float64
  sampleHold :: float32
  holdCount :: int

definition NewEffect :: "EffectType \<Rightarrow> Effect" where
  "NewEffect effectType =
     (let e = \<lparr>Effect.Type = effectType, Mix = 0.5, Parameters = Map.empty, delayLine = [],
                delayIndex = 0, lfoPhase = 0, sampleHold = 0, holdCount = 0\<rparr>
      in (case effectType of
            EffectDelay \<Rightarrow>
              e\<lparr>delayLine := replicate (nat SampleRate) 0,
                Parameters := (Map.empty)(''time'' \<mapsto> 0.25, ''feedback'' \<mapsto> 0.3)\<rparr>
          | EffectDistortion \<Rightarrow>
              e\<lparr>Parameters := (Map.empty)(''drive'' \<mapsto> 5.0, ''level'' \<mapsto> 0.7)\<rparr>
          | EffectChorus \<Rightarrow>
              e\<lparr>delayLine := replicate (nat (SampleRate sdiv 10)) 0,
                Parameters := (Map.empty)(''rate'' \<mapsto> 0.5, ''depth'' \<mapsto> 0.3, ''delay'' \<mapsto> 0.02)\<rparr>
          | EffectBitCrusher \<Rightarrow>
              e\<lparr>Parameters := (Map.empty)(''bits'' \<mapsto> 8.0, ''sampleRate'' \<mapsto> 0.5)\<rparr>
          | EffectReverb \<Rightarrow> e))"

subsection \<open>Delay\<close>

definition delay_body :: "float64 \<Rightarrow> int \<Rightarrow> float32 \<Rightarrow> Effect \<Rightarrow> panic + (float32 \<times> Effect)" where
  "delay_body feedback delaySamples x e =
     pbind (go_rem (delayIndex e - delaySamples + int (length (delayLine e)))
                   (int (length (delayLine e)))) (\<lambda>readIndex.
     pbind (go_index (delayLine e) readIndex) (\<lambda>delayed.
       (let wet = delayed; dry = x
        in pbind (go_store (delayLine e) (delayIndex e) (x + delayed * feedback)) (\<lambda>dl.
           (let y = dry * (1 - Mix e) + wet * Mix e
            in pbind (go_rem (delayIndex e + 1) (int (length dl))) (\<lambda>idx.
                 Inr (y, e\<lparr>delayLine := dl, delayIndex := idx\<rparr>)))))))"

definition delay_samples :: "Effect \<Rightarrow> int" where
  "delay_samples e =
     (let delayTime = map_read (Parameters e) ''time'';
          delaySamples = go_int (delayTime * real_of_int SampleRate)
      in if delaySamples \<ge> int (length (delayLine e))
         then int (length (delayLine e)) - 1 else delaySamples)"

definition processDelay :: "float32 list \<Rightarrow> Effect \<Rightarrow> panic + (float32 list \<times> Effect)" where
  "processDelay buffer e =
     (let feedback = map_read (Parameters e) ''feedback'';
          delaySamples = delay_samples e
      in rangeLoopP (delay_body feedback delaySamples) buffer e)"

subsection \<open>Distortion\<close>

definition distortion_body :: "float64 \<Rightarrow> float64 \<Rightarrow> float32 \<Rightarrow> Effect \<Rightarrow> float32 \<times> Effect" where
  "distortion_body drive level x e =
     (let sample = x;
          sample = sample * drive;
          sample = tanh sample;
          wet = sample * level;
          dry = x
      in (dry * (1 - Mix e) + wet * Mix e, e))"

definition processDistortion :: "float32 list \<Rightarrow> Effect \<Rightarrow> float32 list \<times> Effect" where
  "processDistortion buffer e =
     (let drive = map_read (Parameters e) ''drive'';
          level = map_read (Parameters e) ''level''
      in rangeLoop (distortion_body drive level) buffer e)"

subsection \<open>Chorus\<close>

text \<open>The loop body up to the test: the LFO step and the modulated delay. It returns
  the advanced LFO phase, the integer part of the delay in samples and its fraction.\<close>

definition chorus_lfo :: "Effect \<Rightarrow> float64 \<times> int \<times> float64" where
  "chorus_lfo e =
     (let r = map_read (Parameters e) ''rate'';
          depth = map_read (Parameters e) ''depth'';
          baseDelay = map_read (Parameters e) ''delay'';
          lfoIncrement = 2.0 * pi * r / real_of_int SampleRate;
          lfo = sin (lfoPhase e) * depth;
          ph = lfoPhase e + lfoIncrement;
          ph = (if ph \<ge> 2.0 * pi then ph - 2.0 * pi else ph);
          delayTime = baseDelay + baseDelay * lfo;
          delaySamples = delayTime * real_of_int SampleRate;
          delaySamplesInt = go_int delaySamples;
          fraction = delaySamples - real_of_int delaySamplesInt
      in (ph, delaySamplesInt, fraction))"

definition chorus_body :: "float32 \<Rightarrow> Effect \<Rightarrow> panic + (float32 \<times> Effect)" where
  "chorus_body x e0 =
     (case chorus_lfo e0 of (ph, delaySamplesInt, fraction) \<Rightarrow>
        (let e = e0\<lparr>lfoPhase := ph\<rparr>
         in if delaySamplesInt < int (length (delayLine e)) - 1 then
              pbind (go_rem (delayIndex e - delaySamplesInt + int (length (delayLine e)))
                            (int (length (delayLine e)))) (\<lambda>readIndex1.
              pbind (go_rem (readIndex1 - 1 + int (length (delayLine e)))
                            (int (length (delayLine e)))) (\<lambda>readIndex2.
              pbind (go_index (delayLine e) readIndex1) (\<lambda>sample1.
              pbind (go_index (delayLine e) readIndex2) (\<lambda>sample2.
                (let delayed = sample1 * (1 - fraction) + sample2 * fraction
                 in pbind (go_store (delayLine e) (delayIndex e) x) (\<lambda>dl.
                    (let y = x * (1 - Mix e) + delayed * Mix e
                     in pbind (go_rem (delayIndex e + 1) (int (length dl))) (\<lambda>idx.
                          Inr (y, e\<lparr>delayLine := dl, delayIndex := idx\<rparr>)))))))))
            else Inr (x, e)))"

definition processChorus :: "float32 list \<Rightarrow> Effect \<Rightarrow> panic + (float32 list \<times> Effect)" where
  "processChorus buffer e = rangeLoopP chorus_body buffer e"

subsection \<open>Bit crusher\<close>

definition bitcrusher_body :: "float64 \<Rightarrow> int \<Rightarrow> float32 \<Rightarrow> Effect \<Rightarrow> float32 \<times> Effect" where
  "bitcrusher_body stepSize holdPeriod x e0 =
     (let e1 = (if holdCount e0 = 0 then e0\<lparr>sampleHold := x, holdCount := holdPeriod\<rparr> else e0);
          e = e1\<lparr>holdCount := holdCount e1 - 1\<rparr>;
          sample = sampleHold e;
          sample = (if sample > 0
                    then real_of_int \<lfloor>sample / stepSize\<rfloor> * stepSize
                    else real_of_int \<lceil>sample / stepSize\<rceil> * stepSize);
          wet = sample;
          dry = x
      in (dry * (1 - Mix e) + wet * Mix e, e))"

definition processBitCrusher :: "float32 list \<Rightarrow> Effect \<Rightarrow> float32 list \<times> Effect" where
  "processBitCrusher buffer e =
     (let bits = map_read (Parameters e) ''bits'';
          sampleRateReduction = map_read (Parameters e) ''sampleRate'';
          levels = 2 powr bits;
          stepSize = 2.0 / levels;
          holdPeriod = go_int (1.0 / sampleRateReduction)
      in rangeLoop (bitcrusher_body stepSize holdPeriod) buffer e)"

subsection \<open>Dispatch\<close>

text \<open>The methods \<^verbatim>\<open>Process\<close> and \<^verbatim>\<open>Reset\<close> exist on \<^verbatim>\<open>Effect\<close> and on
  \<^verbatim>\<open>Filter\<close>; the constants carry the receiver's type in their names.\<close>

definition Effect_Process ::
  "float32 list \<Rightarrow> ParameterManager \<Rightarrow> Effect \<Rightarrow> panic + (float32 list \<times> Effect)" where
  "Effect_Process buffer pm e =
     (case Effect.Type e of
        EffectDelay \<Rightarrow> processDelay buffer e
      | EffectDistortion \<Rightarrow> Inr (processDistortion buffer e)
      | EffectChorus \<Rightarrow> processChorus buffer e
      | EffectBitCrusher \<Rightarrow> Inr (processBitCrusher buffer e)
      | EffectReverb \<Rightarrow> Inr (buffer, e))"

definition Effect_Reset :: "Effect \<Rightarrow> Effect" where
  "Effect_Reset e =
     e\<lparr>delayLine := map (\<lambda>_. 0) (delayLine e), delayIndex := 0, lfoPhase := 0,
       sampleHold := 0, holdCount := 0\<rparr>"

section \<open>Filters\<close>

datatype FilterType = FilterLowPass | FilterHighPass | FilterBandPass | FilterNotch

record Filter =
  Type :: FilterType
  Frequency :: float64
  Resonance :: float64
  a0 :: float64
  a1 :: float64
  a2 :: float64
  b0 :: float64
  b1 :: float64
  b2 :: float64
  x1 :: float64
  x2 :: float64
  y1 :: float64
  y2 :: float64

definition updateCoefficients :: "Filter \<Rightarrow> Filter" where
  "updateCoefficients f =
     (let omega = 2.0 * pi * Filter.Frequency f / real_of_int SampleRate;
          sn = sin omega;
          cs = cos omega;
          q = Resonance f;
          q = (if q < 0.1 then 0.1 else q);
          q = (if q > 10.0 then 10.0 else q);
          alpha = sn / (2.0 * q);
          f = (case Filter.Type f of
                 FilterLowPass \<Rightarrow>
                   f\<lparr>b0 := (1.0 - cs) / 2.0, b1 := 1.0 - cs, b2 := (1.0 - cs) / 2.0,
                     a0 := 1.0 + alpha, a1 := - 2.0 * cs, a2 := 1.0 - alpha\<rparr>
               | FilterHighPass \<Rightarrow>
                   f\<lparr>b0 := (1.0 + cs) / 2.0, b1 := - (1.0 + cs), b2 := (1.0 + cs) / 2.0,
                     a0 := 1.0 + alpha, a1 := - 2.0 * cs, a2 := 1.0 - alpha\<rparr>
               | FilterBandPass \<Rightarrow>
                   f\<lparr>b0 := alpha, b1 := 0.0, b2 := - alpha,
                     a0 := 1.0 + alpha, a1 := - 2.0 * cs, a2 := 1.0 - alpha\<rparr>
               | FilterNotch \<Rightarrow>
                   f\<lparr>b0 := 1.0, b1 := - 2.0 * cs, b2 := 1.0,
                     a0 := 1.0 + alpha, a1 := - 2.0 * cs, a2 := 1.0 - alpha\<rparr>);
          f = f\<lparr>b0 := b0 f / a0 f\<rparr>;
          f = f\<lparr>b1 := b1 f / a0 f\<rparr>;
          f = f\<lparr>b2 := b2 f / a0 f\<rparr>;
          f = f\<lparr>a1 := a1 f / a0 f\<rparr>;
          f = f\<lparr>a2 := a2 f / a0 f\<rparr>
      in f)"

text \<open>A composite literal leaves the fields it does not name at their zero value.\<close>

definition NewLowPassFilter :: "float64 \<Rightarrow> float64 \<Rightarrow> Filter" where
  "NewLowPassFilter freq resonance =
     (let f = \<lparr>Filter.Type = FilterLowPass, Filter.Frequency = freq, Resonance = resonance,
                a0 = 0, a1 = 0, a2 = 0, b0 = 0, b1 = 0, b2 = 0, x1 = 0, x2 = 0, y1 = 0, y2 = 0\<rparr>
      in updateCoefficients f)"

definition NewHighPassFilter :: "float64 \<Rightarrow> float64 \<Rightarrow> Filter" where
  "NewHighPassFilter freq resonance =
     (let f = \<lparr>Filter.Type = FilterHighPass, Filter.Frequency = freq, Resonance = resonance,
                a0 = 0, a1 = 0, a2 = 0, b0 = 0, b1 = 0, b2 = 0, x1 = 0, x2 = 0, y1 = 0, y2 = 0\<rparr>
      in updateCoefficients f)"

definition filter_body :: "float32 \<Rightarrow> Filter \<Rightarrow> float32 \<times> Filter" where
  "filter_body x f =
     (let x0 = x;
          y0 = b0 f * x0 + b1 f * x1 f + b2 f * x2 f - a1 f * y1 f - a2 f * y2 f;
          f = f\<lparr>x2 := x1 f\<rparr>;
          f = f\<lparr>x1 := x0\<rparr>;
          f = f\<lparr>y2 := y1 f\<rparr>;
          f = f\<lparr>y1 := y0\<rparr>;
          y0 = (if y0 > 1.0 then 1.0 else if y0 < - 1.0 then - 1.0 else y0)
      in (y0, f))"

definition Filter_Process ::
  "float32 list \<Rightarrow> ParameterManager \<Rightarrow> Filter \<Rightarrow> float32 list \<times> Filter" where
  "Filter_Process buffer pm f =
     (let f = (case Get pm ''filter_frequency'' of (newFreq, exists) \<Rightarrow>
                 if exists then updateCoefficients (f\<lparr>Filter.Frequency := newFreq\<rparr>) else f);
          f = (case Get pm ''filter_resonance'' of (newRes, exists) \<Rightarrow>
                 if exists then updateCoefficients (f\<lparr>Resonance := newRes\<rparr>) else f)
      in rangeLoop filter_body buffer f)"

definition Filter_Reset :: "Filter \<Rightarrow> Filter" where
  "Filter_Reset f = f\<lparr>x1 := 0, x2 := 0, y1 := 0, y2 := 0\<rparr>"

section \<open>Oscillators\<close>

datatype OscillatorType = OscSine | OscSaw | OscSquare | OscTriangle | OscNoise

record Oscillator =
  Type :: OscillatorType
  Frequency :: float64
  Amplitude :: float64
  Phase :: float64
  phaseInc :: float64

definition NewOscillator :: "OscillatorType \<Rightarrow> float64 \<Rightarrow> float64 \<Rightarrow> Oscillator" where
  "NewOscillator oscType freq amp =
     \<lparr>Oscillator.Type = oscType, Oscillator.Frequency = freq, Amplitude = amp, Phase = 0,
      phaseInc = 2.0 * pi * freq / real_of_int SampleRate\<rparr>"





section \<open>The engine\<close>

text \<open>
  PortAudio is an external library. The model keeps of it what \<^verbatim>\<open>Start\<close> and
  \<^verbatim>\<open>Stop\<close> can change or observe: how often the library is initialised and not yet
  terminated, which streams are open, which are started, and the outcome of the three
  calls that can fail (\<open>None\<close>: the call succeeds; \<open>Some msg\<close>: it returns the error
  \<open>msg\<close>). A stream handle is a number, fresh at every open.
\<close>

type_synonym Stream = nat

record PortAudio =
  initCount :: nat
  openStreams :: "Stream list"
  startedStreams :: "Stream list"
  nextStream :: Stream
  InitializeErr :: "string option"
  OpenErr :: "string option"
  StartErr :: "string option"

definition pa_Initialize :: "PortAudio \<Rightarrow> string option \<times> PortAudio" where
  "pa_Initialize pa =
     (case InitializeErr pa of
        Some err \<Rightarrow> (Some err, pa)
      | None \<Rightarrow> (None, pa\<lparr>initCount := initCount pa + 1\<rparr>))"

definition pa_Terminate :: "PortAudio \<Rightarrow> PortAudio" where
  "pa_Terminate pa = (if initCount pa = 0 then pa else pa\<lparr>initCount := initCount pa - 1\<rparr>)"

definition pa_OpenDefaultStream :: "PortAudio \<Rightarrow> (string + Stream) \<times> PortAudio" where
  "pa_OpenDefaultStream pa =
     (case OpenErr pa of
        Some err \<Rightarrow> (Inl err, pa)
      | None \<Rightarrow>
          (Inr (nextStream pa),
           pa\<lparr>openStreams := nextStream pa # openStreams pa, nextStream := nextStream pa + 1\<rparr>))"

definition stream_Start :: "Stream \<Rightarrow> PortAudio \<Rightarrow> string option \<times> PortAudio" where
  "stream_Start s pa =
     (case StartErr pa of
        Some err \<Rightarrow> (Some err, pa)
      | None \<Rightarrow> (None, pa\<lparr>startedStreams := s # startedStreams pa\<rparr>))"

definition stream_Stop :: "Stream \<Rightarrow> PortAudio \<Rightarrow> PortAudio" where
  "stream_Stop s pa = pa\<lparr>startedStreams := removeAll s (startedStreams pa)\<rparr>"

definition stream_Close :: "Stream \<Rightarrow> PortAudio \<Rightarrow> PortAudio" where
  "stream_Close s pa =
     pa\<lparr>openStreams := removeAll s (openStreams pa),
        startedStreams := removeAll s (startedStreams pa)\<rparr>"

record AudioEngine =
  stream :: "Stream option"
  isRunning :: "32 word"
  oscillators :: "Oscillator list"
  filters :: "Filter list"
  effects :: "Effect list"
  params :: ParameterManager

definition AddOscillator :: "Oscillator \<Rightarrow> AudioEngine \<Rightarrow> AudioEngine" where
  "AddOscillator osc ae = ae\<lparr>oscillators := oscillators ae @ [osc]\<rparr>"

definition AddFilter :: "Filter \<Rightarrow> AudioEngine \<Rightarrow> AudioEngine" where
  "AddFilter f ae = ae\<lparr>filters := filters ae @ [f]\<rparr>"

definition AddEffect :: "Effect \<Rightarrow> AudioEngine \<Rightarrow> AudioEngine" where
  "AddEffect e ae = ae\<lparr>effects := effects ae @ [e]\<rparr>"

definition NewAudioEngine :: AudioEngine where
  "NewAudioEngine =
     (let engine = \<lparr>stream = None, isRunning = 0, oscillators = [], filters = [], effects = [],
                     AudioEngine.params = NewParameterManager\<rparr>;
          engine = AddOscillator (NewOscillator OscSine 440.0 0.3) engine;
          engine = AddFilter (NewLowPassFilter 1000.0 0.7) engine
      in engine)"

definition IsRunning :: "AudioEngine \<Rightarrow> bool" where
  "IsRunning ae = (isRunning ae \<noteq> 0)"

text \<open>\<open>Start\<close> returns the error (\<open>None\<close> for \<^verbatim>\<open>nil\<close>), the engine and the driver.\<close>

definition Start :: "AudioEngine \<Rightarrow> PortAudio \<Rightarrow> string option \<times> AudioEngine \<times> PortAudio" where
  "Start ae pa =
     (case pa_Initialize pa of
        (Some err, pa) \<Rightarrow> (Some (''failed to initialize PortAudio: '' @ err), ae, pa)
      | (None, pa) \<Rightarrow>
          (case pa_OpenDefaultStream pa of
             (Inl err, pa) \<Rightarrow>
               (Some (''failed to open audio stream: '' @ err), ae, pa_Terminate pa)
           | (Inr s, pa) \<Rightarrow>
               (let ae = ae\<lparr>stream := Some s\<rparr>;
                    ae = ae\<lparr>isRunning := 1\<rparr>
                in (case stream_Start s pa of
                      (Some err, pa) \<Rightarrow>
                        (Some (''failed to start audio stream: '' @ err), ae, pa)
                    | (None, pa) \<Rightarrow> (None, ae, pa)))))"

definition Stop :: "AudioEngine \<Rightarrow> PortAudio \<Rightarrow> AudioEngine \<times> PortAudio" where
  "Stop ae pa =
     (let ae = ae\<lparr>isRunning := 0\<rparr>;
          pa = (case stream ae of
                  Some s \<Rightarrow> stream_Close s (stream_Stop s pa)
                | None \<Rightarrow> pa)
      in (ae, pa_Terminate pa))"

text \<open>A driver on which nothing is acquired yet and every call succeeds.\<close>

definition pa_idle :: PortAudio where
  "pa_idle =
     \<lparr>initCount = 0, openStreams = [], startedStreams = [], nextStream = 0,
      InitializeErr = None, OpenErr = None, StartErr = None\<rparr>"

section \<open>Properties of the effects\<close>

text \<open>
  C9. An effect whose type is \<open>EffectReverb\<close> has no case in the dispatch of
  \<open>Effect_Process\<close>: the call returns without a panic, the buffer holds what it held and no
  field of the effect has changed.
\<close>

theorem Process_Reverb_identity:
  "Effect.Type e = EffectReverb \<Longrightarrow> Effect_Process buffer pm e = Inr (buffer, e)"
  by (simp add: Effect_Process_def)

theorem Process_Reverb_identity_witness:
  "Effect.Type (NewEffect EffectReverb) = EffectReverb
   \<and> Effect_Process [1, - 1, 0.5] NewParameterManager (NewEffect EffectReverb)
       = Inr ([1, - 1, 0.5], NewEffect EffectReverb)"
proof -
  have t: "Effect.Type (NewEffect EffectReverb) = EffectReverb"
    by (simp add: NewEffect_def)
  show ?thesis
    using t Process_Reverb_identity [OF t, of "[1, - 1, 0.5]" NewParameterManager] by simp
qed

section \<open>Properties of the parameter store\<close>

subsection \<open>Writes and the smoothers\<close>

lemma BatchSet_entry_smoothing: "smoothing (BatchSet_entry kv pm) = smoothing pm"
  by (cases kv) (simp add: BatchSet_entry_def Let_def split: option.splits)

lemma BatchSet_smoothing: "smoothing (BatchSet updates pm) = smoothing pm"
  by (induction updates arbitrary: pm) (simp_all add: BatchSet_entry_smoothing)

lemma BatchSet_entry_params:
  "ParameterManager.params (BatchSet_entry (k, v) pm) = (ParameterManager.params pm)(k \<mapsto> v)"
  by (simp add: BatchSet_entry_def Let_def split: option.splits)

lemma BatchSet_entry_atomic:
  "atomicParams (BatchSet_entry (k, v) pm) =
     (if atomicParams pm k = None then atomicParams pm else (atomicParams pm)(k \<mapsto> v))"
  by (auto simp add: BatchSet_entry_def Let_def split: option.splits)

lemma BatchSet_other_key:
  "k \<notin> fst ` set updates \<Longrightarrow>
     ParameterManager.params (BatchSet updates pm) k = ParameterManager.params pm k
     \<and> atomicParams (BatchSet updates pm) k = atomicParams pm k"
proof (induction updates arbitrary: pm)
  case Nil
  then show ?case by simp
next
  case (Cons kv updates)
  obtain k' v' where kv: "kv = (k', v')" by (cases kv)
  from Cons.prems kv have ne: "k' \<noteq> k" and rest: "k \<notin> fst ` set updates" by auto
  show ?case
    using Cons.IH [OF rest, of "BatchSet_entry kv pm"] ne
    by (simp add: kv BatchSet_entry_params BatchSet_entry_atomic)
qed

lemma BatchSet_updated_key:
  "distinct (map fst updates) \<Longrightarrow> (k, v) \<in> set updates \<Longrightarrow>
     ParameterManager.params (BatchSet updates pm) k = Some v
     \<and> atomicParams (BatchSet updates pm) k = (if atomicParams pm k = None then None else Some v)"
proof (induction updates arbitrary: pm)
  case Nil
  then show ?case by simp
next
  case (Cons kv updates)
  obtain k' v' where kv: "kv = (k', v')" by (cases kv)
  show ?case
  proof (cases "(k, v) \<in> set updates")
    case True
    with Cons.prems kv have ne: "k' \<noteq> k" by force
    from Cons.prems have d: "distinct (map fst updates)" by simp
    show ?thesis
      using Cons.IH [OF d True, of "BatchSet_entry kv pm"] ne
      by (simp add: kv BatchSet_entry_atomic)
  next
    case False
    with Cons.prems kv have eq: "k' = k" "v' = v" by auto
    from Cons.prems kv eq have notin: "k \<notin> fst ` set updates" by auto
    show ?thesis
      using BatchSet_other_key [OF notin, of "BatchSet_entry kv pm"]
      by (simp add: kv eq BatchSet_entry_params BatchSet_entry_atomic)
  qed
qed

lemma Set_smoothing:
  "smoothing (Set k v pm) =
     (case smoothing pm k of
        Some s \<Rightarrow> (smoothing pm)(k \<mapsto> s\<lparr>target := v, active := True\<rparr>)
      | None \<Rightarrow> smoothing pm)"
  by (simp add: Set_def Let_def split: option.splits)

lemma RegisterAtomic_smoothing: "smoothing (RegisterAtomic k v pm) = smoothing pm"
  by (simp add: RegisterAtomic_def)

lemma GetSmoothed_keeps_target:
  assumes "smoothing pm k = Some s"
  shows "(case smoothing (snd (GetSmoothed k d pm)) k of
            None \<Rightarrow> False
          | Some s' \<Rightarrow> target s' = target s \<and> (active s' \<longrightarrow> active s))"
  using assms by (simp add: GetSmoothed_def Let_def)

text \<open>
  C10. For a key with an attached smoother, \<open>BatchSet\<close> with an entry for the key writes the
  value to the primary record and, where a lock-free slot is registered, to the slot; the
  map of smoothers is the one from before the call, so the target, the current value and
  the active flag of every smoother are unchanged. \<open>Set\<close> for the same key and value gives
  the smoother the new target and marks it active. Of the other operations,
  \<open>RegisterAtomic\<close> leaves the smoothers as they are and \<open>GetSmoothed\<close> neither changes
  the target nor activates the smoother.
\<close>

theorem BatchSet_leaves_smoother_Set_retargets:
  assumes "distinct (map fst updates)" and "(k, v) \<in> set updates"
    and "smoothing pm k = Some s"
  shows "smoothing (BatchSet updates pm) = smoothing pm
    \<and> ParameterManager.params (BatchSet updates pm) k = Some v
    \<and> atomicParams (BatchSet updates pm) k = (if atomicParams pm k = None then None else Some v)
    \<and> smoothing (Set k v pm) k = Some (s\<lparr>target := v, active := True\<rparr>)
    \<and> smoothing (RegisterAtomic k v pm) = smoothing pm
    \<and> (case smoothing (snd (GetSmoothed k d pm)) k of
          None \<Rightarrow> False
        | Some s' \<Rightarrow> target s' = target s \<and> (active s' \<longrightarrow> active s))"
  using assms BatchSet_updated_key [OF assms(1,2), of pm] GetSmoothed_keeps_target [OF assms(3), of d]
  by (simp add: BatchSet_smoothing Set_smoothing RegisterAtomic_smoothing)

theorem BatchSet_leaves_smoother_Set_retargets_witness:
  "(let pm = EnableSmoothing ''cutoff'' 0.5 (RegisterAtomic ''cutoff'' 100 NewParameterManager);
        updates = [(''cutoff'', 800), (''drive'', 2)]
    in smoothing (BatchSet updates pm) ''cutoff''
         = Some \<lparr>current = 100, target = 100, rate = 0.5, active = False\<rparr>
       \<and> ParameterManager.params (BatchSet updates pm) ''cutoff'' = Some 800
       \<and> atomicParams (BatchSet updates pm) ''cutoff'' = Some 800
       \<and> smoothing (Set ''cutoff'' 800 pm) ''cutoff''
           = Some \<lparr>current = 100, target = 800, rate = 0.5, active = True\<rparr>)"
proof -
  define pm where
    "pm = EnableSmoothing ''cutoff'' 0.5 (RegisterAtomic ''cutoff'' 100 NewParameterManager)"
  have d: "distinct (map fst [(''cutoff'', 800::real), (''drive'', 2)])" by simp
  have m: "(''cutoff'', 800::real) \<in> set [(''cutoff'', 800), (''drive'', 2)]" by simp
  have s: "smoothing pm ''cutoff''
             = Some \<lparr>current = 100, target = 100, rate = 0.5, active = False\<rparr>"
    by (simp add: pm_def EnableSmoothing_def RegisterAtomic_def NewParameterManager_def
        GetWithDefault_def Get_def Let_def)
  have a: "atomicParams pm ''cutoff'' = Some 100"
    by (simp add: pm_def EnableSmoothing_def RegisterAtomic_def NewParameterManager_def Let_def)
  show ?thesis
    unfolding Let_def pm_def [symmetric]
    using BatchSet_leaves_smoother_Set_retargets [OF d m s, of 0] a s
    by simp
qed

section \<open>Properties of the engine\<close>

lemma Start_Initialize_fails:
  "InitializeErr pa = Some err \<Longrightarrow>
     Start ae pa = (Some (''failed to initialize PortAudio: '' @ err), ae, pa)"
  by (simp add: Start_def pa_Initialize_def)

lemma Start_Open_fails:
  "InitializeErr pa = None \<Longrightarrow> OpenErr pa = Some err \<Longrightarrow>
     Start ae pa = (Some (''failed to open audio stream: '' @ err), ae, pa)"
  by (simp add: Start_def pa_Initialize_def pa_OpenDefaultStream_def pa_Terminate_def)

lemma Start_stream_Start_fails:
  "InitializeErr pa = None \<Longrightarrow> OpenErr pa = None \<Longrightarrow> StartErr pa = Some err \<Longrightarrow>
     Start ae pa =
       (Some (''failed to start audio stream: '' @ err),
        ae\<lparr>stream := Some (nextStream pa), isRunning := 1\<rparr>,
        pa\<lparr>initCount := initCount pa + 1, openStreams := nextStream pa # openStreams pa,
           nextStream := nextStream pa + 1\<rparr>)"
  by (simp add: Start_def pa_Initialize_def pa_OpenDefaultStream_def stream_Start_def Let_def)

lemma Start_succeeds:
  "InitializeErr pa = None \<Longrightarrow> OpenErr pa = None \<Longrightarrow> StartErr pa = None \<Longrightarrow>
     Start ae pa =
       (None,
        ae\<lparr>stream := Some (nextStream pa), isRunning := 1\<rparr>,
        pa\<lparr>initCount := initCount pa + 1, openStreams := nextStream pa # openStreams pa,
           nextStream := nextStream pa + 1,
           startedStreams := nextStream pa # startedStreams pa\<rparr>)"
  by (simp add: Start_def pa_Initialize_def pa_OpenDefaultStream_def stream_Start_def Let_def)

text \<open>
  C1. The claim: whichever step of \<open>Start\<close> fails, the error is returned, what was
  acquired before the step is released and \<open>IsRunning\<close> is false. The lemmas above show
  it for a failing initialisation and a failing open (the open path terminates the
  library). On a failing stream start it does not hold: for a fresh engine on an idle
  driver whose stream start fails, \<open>Start\<close> returns the error with the running flag set,
  the stream open and still referenced, and the library initialised.
\<close>

theorem Start_stream_start_failure_leaves_Running:
  "(case Start NewAudioEngine (pa_idle\<lparr>StartErr := Some ''device unavailable''\<rparr>) of
      (err, ae, pa) \<Rightarrow>
        err = Some ''failed to start audio stream: device unavailable''
        \<and> IsRunning ae \<and> stream ae = Some 0
        \<and> openStreams pa = [0] \<and> initCount pa = 1)"
  by (simp add: Start_def pa_Initialize_def pa_OpenDefaultStream_def stream_Start_def Let_def
      pa_idle_def IsRunning_def)

text \<open>
  C2 (as amended). \<open>Start\<close> never reads the running flag. Called on a running engine with
  a driver whose three calls succeed, it returns no error, opens one more stream (the
  streams open before stay open), stores the new handle in the engine and leaves the
  engine running; the error and the driver state are those of the same call on the
  stopped engine.
\<close>

theorem Start_while_Running_reopens:
  assumes "IsRunning ae"
    and "InitializeErr pa = None" and "OpenErr pa = None" and "StartErr pa = None"
  shows "(case Start ae pa of
            (err, ae', pa') \<Rightarrow>
              err = None
              \<and> IsRunning ae'
              \<and> stream ae' = Some (nextStream pa)
              \<and> openStreams pa' = nextStream pa # openStreams pa
              \<and> startedStreams pa' = nextStream pa # startedStreams pa
              \<and> initCount pa' = initCount pa + 1)
         \<and> fst (Start ae pa) = fst (Start (ae\<lparr>stream := None, isRunning := 0\<rparr>) pa)
         \<and> snd (snd (Start ae pa)) = snd (snd (Start (ae\<lparr>stream := None, isRunning := 0\<rparr>) pa))"
  by (simp add: Start_succeeds [OF assms(2-4)] IsRunning_def)

theorem Start_while_Running_reopens_witness:
  "(let ae = NewAudioEngine\<lparr>stream := Some 0, isRunning := 1\<rparr>;
        pa = pa_idle\<lparr>initCount := 1, openStreams := [0], startedStreams := [0], nextStream := 1\<rparr>
    in IsRunning ae \<and> InitializeErr pa = None \<and> OpenErr pa = None \<and> StartErr pa = None
       \<and> fst (Start ae pa) = None
       \<and> IsRunning (fst (snd (Start ae pa)))
       \<and> stream (fst (snd (Start ae pa))) = Some 1
       \<and> openStreams (snd (snd (Start ae pa))) = [1, 0]
       \<and> startedStreams (snd (snd (Start ae pa))) = [1, 0]
       \<and> initCount (snd (snd (Start ae pa))) = 2)"
proof -
  define ae where "ae = NewAudioEngine\<lparr>stream := Some 0, isRunning := 1\<rparr>"
  define pa where
    "pa = pa_idle\<lparr>initCount := 1, openStreams := [0], startedStreams := [0], nextStream := 1\<rparr>"
  have r: "IsRunning ae" by (simp add: ae_def IsRunning_def)
  have i: "InitializeErr pa = None" and o: "OpenErr pa = None" and s: "StartErr pa = None"
    by (simp_all add: pa_def pa_idle_def)
  have v: "nextStream pa = 1" "openStreams pa = [0]" "startedStreams pa = [0]" "initCount pa = 1"
    by (simp_all add: pa_def)
  from Start_while_Running_reopens [OF r i o s] v
  have "fst (Start ae pa) = None
       \<and> IsRunning (fst (snd (Start ae pa)))
       \<and> stream (fst (snd (Start ae pa))) = Some 1
       \<and> openStreams (snd (snd (Start ae pa))) = [1, 0]
       \<and> startedStreams (snd (snd (Start ae pa))) = [1, 0]
       \<and> initCount (snd (snd (Start ae pa))) = 2"
    by (cases "Start ae pa") simp
  with r i o s show ?thesis
    unfolding Let_def ae_def [symmetric] pa_def [symmetric] by blast
qed

text \<open>
  C2 as stated fails: a first \<open>Start\<close> of a fresh engine on an idle driver leaves the
  engine running with stream 0 open; the second \<open>Start\<close> returns no error and opens
  stream 1 beside it.
\<close>

theorem Start_while_Running_counterexample:
  "(case Start NewAudioEngine pa_idle of
      (err1, ae1, pa1) \<Rightarrow>
        err1 = None \<and> IsRunning ae1 \<and> openStreams pa1 = [0]
        \<and> (case Start ae1 pa1 of
              (err2, ae2, pa2) \<Rightarrow>
                err2 = None \<and> openStreams pa2 = [1, 0] \<and> stream ae2 = Some 1 \<and> initCount pa2 = 2))"
  by (simp add: Start_def pa_Initialize_def pa_OpenDefaultStream_def stream_Start_def Let_def
      pa_idle_def IsRunning_def)

section \<open>Properties of the filters\<close>


lemma filter_body_state:
  "snd (filter_body x f) =
     f\<lparr>x2 := x1 f, x1 := x, y2 := y1 f,
       y1 := b0 f * x + b1 f * x1 f + b2 f * x2 f - a1 f * y1 f - a2 f * y2 f\<rparr>"
  by (simp add: filter_body_def Let_def)





lemma hp_coeffs:
  "NewHighPassFilter 11025 10 =
     \<lparr>Filter.Type = FilterHighPass, Filter.Frequency = 11025, Resonance = 10,
      a0 = 21 / 20, a1 = 0, a2 = 19 / 21, b0 = 10 / 21, b1 = - 20 / 21, b2 = 10 / 21,
      x1 = 0, x2 = 0, y1 = 0, y2 = 0\<rparr>"
  by (simp add: NewHighPassFilter_def updateCoefficients_def SampleRate_def Let_def)

text \<open>
  C3. The output sample follows the difference equation (\<open>filter_body_output\<close>), but the
  history element \<open>y1\<close> receives the value before the clamp (\<open>filter_body_state\<close>); only
  the sample written to the buffer is clamped. For the high-pass filter at 11025 Hz with
  resonance 10 and the buffer \<open>[1, - 1]\<close> the second output is clamped to \<open>- 1\<close> while
  \<open>y1\<close> is left at \<open>- 10 / 7\<close>, outside \<open>[- 1, 1]\<close>.
\<close>

theorem Filter_Process_history_not_clamped:
  "Filter_Process [1, - 1] NewParameterManager (NewHighPassFilter 11025 10) =
     ([10 / 21, - 1],
      (NewHighPassFilter 11025 10)\<lparr>x1 := - 1, x2 := 1, y1 := - 10 / 7, y2 := 10 / 21\<rparr>)"
  by (simp add: hp_coeffs Filter_Process_def Get_def NewParameterManager_def filter_body_def Let_def)




subsection \<open>Stability below the Nyquist frequency\<close>




lemma rangeLoop_append:
  "rangeLoop body (xs @ ys) s =
     (case rangeLoop body xs s of (o1, s1) \<Rightarrow>
        (case rangeLoop body ys s1 of (o2, s2) \<Rightarrow> (o1 @ o2, s2)))"
  by (induction xs arbitrary: s) (simp_all split: prod.splits)












section \<open>Properties of the oscillators\<close>







section \<open>Properties of the circular delay lines\<close>

subsection \<open>Index arithmetic without panics\<close>






subsection \<open>Chorus\<close>











section \<open>Properties of parameter smoothing\<close>
















section \<open>Properties of the delay effect\<close>



















end
